theory Spec2Isabelle
  imports Main "HOL-Library.Word" "HOL-Library.Signed_Division" "HOL-Library.Monad_Syntax"
begin

unbundle bit_operations_syntax

section \<open>evilwm client management (client.c): data model\<close>

text \<open>
  C \<open>int\<close> and \<open>unsigned\<close> are 32-bit words, \<open>long\<close> and the X resource ids
  (\<open>Window\<close>, \<open>Colormap\<close>, pixel values: \<open>unsigned long\<close>) are 64-bit words.
  Arithmetic on \<open>int\<close> wraps around as two's complement arithmetic does on the machine
  (ISO C leaves signed overflow undefined; a property that needs its absence says so);
  comparisons of \<open>int\<close> values are the signed ones (\<open>\<le>s\<close>, \<open><s\<close>) and \<open>/\<close> truncates
  towards zero.
\<close>

type_synonym cint = "32 word"
type_synonym cuint = "32 word"
type_synonym clong = "64 word"
type_synonym xid = "64 word"

text \<open>The address of a \<open>struct client\<close>; \<open>NULL\<close> is \<open>None\<close> of \<open>cptr option\<close>.\<close>

type_synonym cptr = nat

text \<open>C's \<open>a / b\<close> on \<open>int\<close>: the quotient truncated towards zero.\<close>

definition c_div :: "cint \<Rightarrow> cint \<Rightarrow> cint" where
  "c_div a b = word_of_int (sint a sdiv sint b)"

subsection \<open>Constants of X11/X.h and X11/Xutil.h\<close>

definition PMinSize :: clong where "PMinSize = 16"
definition PMaxSize :: clong where "PMaxSize = 32"
definition PResizeInc :: clong where "PResizeInc = 64"
definition PBaseSize :: clong where "PBaseSize = 256"
definition PWinGravity :: clong where "PWinGravity = 512"

definition NorthWestGravity :: cint where "NorthWestGravity = 1"
definition NorthGravity :: cint where "NorthGravity = 2"
definition NorthEastGravity :: cint where "NorthEastGravity = 3"
definition WestGravity :: cint where "WestGravity = 4"
definition CenterGravity :: cint where "CenterGravity = 5"
definition EastGravity :: cint where "EastGravity = 6"
definition SouthWestGravity :: cint where "SouthWestGravity = 7"
definition SouthGravity :: cint where "SouthGravity = 8"
definition SouthEastGravity :: cint where "SouthEastGravity = 9"

definition WithdrawnState :: cint where "WithdrawnState = 0"
definition NormalState :: cint where "NormalState = 1"
definition IconicState :: cint where "IconicState = 3"

definition None_xid :: clong where "None_xid = 0"
definition PointerRoot :: xid where "PointerRoot = 1"

subsection \<open>Structures\<close>

text \<open>
  \<open>struct monitor\<close>: a rectangle. \<open>XSizeHints\<close>: the fields of the Xlib structure that
  \<open>get_wm_normal_hints\<close> reads. \<open>struct screen\<close>: the array \<open>monitors\<close> with its count
  \<open>nmonitors\<close> is the list \<open>monitors\<close> (\<open>nmonitors\<close> is its length); \<open>fg.pixel\<close>,
  \<open>bg.pixel\<close> and \<open>fc.pixel\<close> are the three border colours. No function of client.c
  writes to a screen, so a client holds its screen by value.
\<close>

record monitor =
  x :: cint
  y :: cint
  width :: cint
  height :: cint

record XSizeHints =
  flags :: clong
  min_width :: cint
  min_height :: cint
  max_width :: cint
  max_height :: cint
  width_inc :: cint
  height_inc :: cint
  base_width :: cint
  base_height :: cint
  win_gravity :: cint

record screen =
  screen :: cint
  root :: xid
  vdesk :: cuint
  monitors :: "monitor list"
  fg_pixel :: xid
  bg_pixel :: xid
  fc_pixel :: xid

text \<open>\<open>struct client\<close>, with the fields client.c uses.\<close>

record client =
  window :: xid
  parent :: xid
  screen :: screen
  x :: cint
  y :: cint
  width :: cint
  height :: cint
  border :: cint
  old_border :: cint
  min_width :: cint
  min_height :: cint
  max_width :: cint
  max_height :: cint
  base_width :: cint
  base_height :: cint
  width_inc :: cint
  height_inc :: cint
  win_gravity_hint :: cint
  win_gravity :: cint
  cmap :: xid
  vdesk :: cuint
  is_dock :: cint
  ignore_unmap :: cint
  remove :: cint

text \<open>
  What client.c takes from its headers and from list.c, as parameters: the macros
  \<open>valid_vdesk\<close>, \<open>VDESK_FIXED\<close> and \<open>is_fixed\<close>, the list operation \<open>list_delete\<close>,
  and Xlib's \<open>DisplayWidth\<close> and \<open>DisplayHeight\<close> of \<open>display.dpy\<close>, by screen number.
\<close>

record env =
  valid_vdesk :: "cuint \<Rightarrow> bool"
  VDESK_FIXED :: cuint
  is_fixed :: "client \<Rightarrow> bool"
  list_delete :: "cptr list \<Rightarrow> cptr \<Rightarrow> cptr list"
  DisplayWidth :: "cint \<Rightarrow> cint"
  DisplayHeight :: "cint \<Rightarrow> cint"

text \<open>
  What a call leaves outside the client structures, in the order it happens: the Xlib
  requests with the arguments that vary, the calls into ewmh.c (recorded as calls, with
  their argument: what they publish is outside client.c), and the writes to the global flag
  \<open>ignore_xerror\<close> that the X error handler reads.
\<close>

datatype effect =
    XGrabServer
  | XUngrabServer
  | XSync bool
  | XSetWindowBorder xid xid
  | XInstallColormap xid
  | XSetInputFocus xid
  | XMapWindow xid
  | XUnmapWindow xid
  | XChangeProperty xid string "clong list"
  | XReparentWindow xid xid cint cint
  | XSetWindowBorderWidth xid cint
  | XRemoveFromSaveSet xid
  | XDestroyWindow xid
  | ewmh_set_net_wm_state cptr
  | ewmh_set_net_wm_desktop cptr
  | ewmh_withdraw_client cptr
  | ewmh_remove_allowed_actions cptr
  | ewmh_set_net_client_list screen
  | ewmh_set_net_client_list_stacking screen
  | Assign_ignore_xerror cint

text \<open>
  The state of the window manager: the allocated client structures by address, the three
  global lists, the global \<open>current\<close>, the global \<open>ignore_xerror\<close>, and the effects so
  far. A function that dereferences a pointer to no allocated client has no defined
  behaviour: it returns \<open>None\<close>.
\<close>

record world =
  heap :: "cptr \<rightharpoonup> client"
  clients_tab_order :: "cptr list"
  clients_mapping_order :: "cptr list"
  clients_stacking_order :: "cptr list"
  current :: "cptr option"
  ignore_xerror :: cint
  xlog :: "effect list"

definition emit :: "effect \<Rightarrow> world \<Rightarrow> world" where
  "emit e w = w\<lparr>xlog := xlog w @ [e]\<rparr>"

section \<open>The functions of client.c\<close>

text \<open>
  \<open>get_wm_normal_hints\<close> (lines 45-99). \<open>sz\<close> is the structure after
  \<open>XGetWMNormalHints\<close>: \<open>XAllocSizeHints\<close> zeroes it, so a window without the property
  has \<open>flags = 0\<close>. The result is the client and the returned flags.
\<close>

definition get_wm_normal_hints :: "XSizeHints \<Rightarrow> client \<Rightarrow> client \<times> clong" where
  "get_wm_normal_hints sz c =
    (let flags = XSizeHints.flags sz;
         c1 = (if flags AND PMinSize \<noteq> 0
               then c\<lparr>min_width := XSizeHints.min_width sz, min_height := XSizeHints.min_height sz\<rparr>
               else c\<lparr>min_width := 0, min_height := 0\<rparr>);
         c2 = (if flags AND PMaxSize \<noteq> 0
               then c1\<lparr>max_width := XSizeHints.max_width sz, max_height := XSizeHints.max_height sz\<rparr>
               else c1\<lparr>max_width := 0, max_height := 0\<rparr>);
         c3 = (if flags AND PBaseSize \<noteq> 0
               then c2\<lparr>base_width := XSizeHints.base_width sz, base_height := XSizeHints.base_height sz\<rparr>
               else c2\<lparr>base_width := min_width c2, base_height := min_height c2\<rparr>);
         c4 = c3\<lparr>width_inc := 1, height_inc := 1\<rparr>;
         c5 = (if flags AND PResizeInc \<noteq> 0
               then c4\<lparr>width_inc := (if XSizeHints.width_inc sz \<noteq> 0 then XSizeHints.width_inc sz else 1),
                       height_inc := (if XSizeHints.height_inc sz \<noteq> 0 then XSizeHints.height_inc sz else 1)\<rparr>
               else c4);
         c6 = (if \<not> (flags AND PMinSize \<noteq> 0)
               then c5\<lparr>min_width := base_width c5 + width_inc c5,
                       min_height := base_height c5 + height_inc c5\<rparr>
               else c5);
         c7 = (if flags AND PWinGravity \<noteq> 0
               then c6\<lparr>win_gravity_hint := XSizeHints.win_gravity sz\<rparr>
               else c6\<lparr>win_gravity_hint := NorthWestGravity\<rparr>);
         c8 = c7\<lparr>win_gravity := win_gravity_hint c7\<rparr>
     in (c8, flags))"

text \<open>
  \<open>client_monitor\<close> (lines 133-153). \<open>is_inside\<close> is the local of lines 140-141. The
  loop runs over the monitors from index \<open>i\<close> on, with its locals \<open>was_inside\<close> and
  \<open>best\<close>; \<open>best\<close> and the result are indices into \<open>c->screen->monitors\<close> (the pointer
  \<open>&monitors[i]\<close>), \<open>None\<close> is \<open>NULL\<close>.
\<close>

definition is_inside :: "cint \<Rightarrow> cint \<Rightarrow> monitor \<Rightarrow> bool" where
  "is_inside midx midy m =
    ((monitor.x m \<le>s midx \<and> midx <s monitor.x m + monitor.width m) \<and>
     (monitor.y m \<le>s midy \<and> midy <s monitor.y m + monitor.height m))"

fun client_monitor_loop ::
  "cint \<Rightarrow> cint \<Rightarrow> monitor list \<Rightarrow> nat \<Rightarrow> bool \<Rightarrow> nat option \<Rightarrow> nat option" where
  "client_monitor_loop midx midy [] i was_inside best = best"
| "client_monitor_loop midx midy (m # ms) i was_inside best =
    (if is_inside midx midy m \<and> \<not> was_inside
     then client_monitor_loop midx midy ms (Suc i) True (Some i)
     else client_monitor_loop midx midy ms (Suc i) was_inside best)"

definition client_monitor :: "client \<Rightarrow> nat" where
  "client_monitor c =
    (let midx = x c + c_div (width c) 2;
         midy = y c + c_div (height c) 2
     in case client_monitor_loop midx midy (monitors (screen c)) 0 False None of
          Some best \<Rightarrow> best
        | None \<Rightarrow> 0)"

text \<open>\<open>set_wm_state\<close> (lines 191-199): \<open>data[0] = state\<close> widens the \<open>int\<close> to \<open>long\<close>.\<close>

definition set_wm_state :: "cptr \<Rightarrow> cint \<Rightarrow> world \<Rightarrow> world option" where
  "set_wm_state c state w =
    do {
      cl \<leftarrow> heap w c;
      Some (emit (XChangeProperty (window cl) ''WM_STATE'' [scast state, None_xid]) w)
    }"

text \<open>\<open>client_hide\<close> (lines 158-162) and \<open>client_show\<close> (lines 167-170).\<close>

definition client_hide :: "cptr \<Rightarrow> world \<Rightarrow> world option" where
  "client_hide c w =
    do {
      cl \<leftarrow> heap w c;
      let w1 = w\<lparr>heap := (heap w)(c \<mapsto> cl\<lparr>ignore_unmap := ignore_unmap cl + 1\<rparr>)\<rparr>;
      let w2 = emit (XUnmapWindow (parent cl)) w1;
      set_wm_state c IconicState w2
    }"

definition client_show :: "cptr \<Rightarrow> world \<Rightarrow> world option" where
  "client_show c w =
    do {
      cl \<leftarrow> heap w c;
      let w1 = emit (XMapWindow (parent cl)) w;
      set_wm_state c NormalState w1
    }"

text \<open>
  \<open>client_gravitate\<close> (lines 224-267). The \<open>switch\<close> in the order of its cases; the last
  branch is \<open>default\<close>.
\<close>

definition client_gravitate :: "env \<Rightarrow> client \<Rightarrow> cint \<Rightarrow> client" where
  "client_gravitate E c bw =
    (let g = win_gravity c;
         (dx, dy) =
           (if g = NorthWestGravity then (bw, bw)
            else if g = NorthGravity then (0, bw)
            else if g = NorthEastGravity then (- bw, bw)
            else if g = EastGravity then (- bw, 0)
            else if g = CenterGravity then (0, 0)
            else if g = WestGravity then (bw, 0)
            else if g = SouthWestGravity then (bw, - bw)
            else if g = SouthGravity then (0, - bw)
            else if g = SouthEastGravity then (- bw, - bw)
            else (bw, bw));
         c1 = (if x c \<noteq> 0 \<or> width c \<noteq> DisplayWidth E (screen.screen (screen c))
               then c\<lparr>x := x c + dx\<rparr> else c);
         c2 = (if y c1 \<noteq> 0 \<or> height c1 \<noteq> DisplayHeight E (screen.screen (screen c1))
               then c1\<lparr>y := y c1 + dy\<rparr> else c1)
     in c2)"

text \<open>\<open>select_client\<close> (lines 273-295); the argument may be \<open>NULL\<close>.\<close>

definition select_client :: "env \<Rightarrow> cptr option \<Rightarrow> world \<Rightarrow> world option" where
  "select_client E c w =
    do {
      let old_current = current w;
      w1 \<leftarrow> (case current w of
                None \<Rightarrow> Some w
              | Some cur \<Rightarrow>
                  do {
                    cc \<leftarrow> heap w cur;
                    Some (emit (XSetWindowBorder (parent cc) (bg_pixel (screen cc))) w)
                  });
      w2 \<leftarrow> (case c of
                None \<Rightarrow> Some w1
              | Some p \<Rightarrow>
                  do {
                    cl \<leftarrow> heap w1 p;
                    let bpixel = (if is_fixed E cl then fc_pixel (screen cl) else fg_pixel (screen cl));
                    let wa = emit (XSetWindowBorder (parent cl) bpixel) w1;
                    let wb = emit (XInstallColormap (cmap cl)) wa;
                    Some (emit (XSetInputFocus (window cl)) wb)
                  });
      let w3 = w2\<lparr>current := c\<rparr>;
      let w4 = (case old_current of None \<Rightarrow> w3 | Some oc \<Rightarrow> emit (ewmh_set_net_wm_state oc) w3);
      let w5 = (case c of None \<Rightarrow> w4 | Some p \<Rightarrow> emit (ewmh_set_net_wm_state p) w4);
      Some w5
    }"

text \<open>\<open>client_to_vdesk\<close> (lines 300-311).\<close>

definition client_to_vdesk :: "env \<Rightarrow> cptr \<Rightarrow> cuint \<Rightarrow> world \<Rightarrow> world option" where
  "client_to_vdesk E c vd w =
    (if valid_vdesk E vd then
       do {
         cl \<leftarrow> heap w c;
         let cl1 = cl\<lparr>vdesk := vd\<rparr>;
         let w1 = w\<lparr>heap := (heap w)(c \<mapsto> cl1)\<rparr>;
         w2 \<leftarrow> (if vdesk cl1 = screen.vdesk (screen cl1) \<or> vdesk cl1 = VDESK_FIXED E
                 then client_show c w1
                 else client_hide c w1);
         let w3 = emit (ewmh_set_net_wm_desktop c) w2;
         select_client E (current w3) w3
       }
     else Some w)"

text \<open>
  \<open>remove_client\<close> (lines 316-404), without the logging macros and the \<open>DEBUG\<close> block.
  \<open>free(c)\<close> takes the client out of the heap.
\<close>

definition remove_client :: "env \<Rightarrow> cptr \<Rightarrow> world \<Rightarrow> world option" where
  "remove_client E c w =
    do {
      c0 \<leftarrow> heap w c;
      let w1 = emit XGrabServer w;
      let w2 = emit (Assign_ignore_xerror 1) (w1\<lparr>ignore_xerror := 1\<rparr>);
      w3 \<leftarrow> (if remove c0 \<noteq> 0 then
                do {
                  let wa = (if Some c = current w2 then emit (XSetInputFocus PointerRoot) w2 else w2);
                  wb \<leftarrow> set_wm_state c WithdrawnState wa;
                  Some (emit (ewmh_withdraw_client c) wb)
                }
              else Some (emit (ewmh_remove_allowed_actions c) w2));
      let c1 = client_gravitate E c0 (- border c0);
      let c2 = client_gravitate E c1 (old_border c1);
      let c3 = c2\<lparr>x := x c2 - old_border c2\<rparr>;
      let c4 = c3\<lparr>y := y c3 - old_border c3\<rparr>;
      let w4 = w3\<lparr>heap := (heap w3)(c \<mapsto> c4)\<rparr>;
      let w5 = emit (XReparentWindow (window c4) (root (screen c4)) (x c4) (y c4)) w4;
      let w6 = emit (XSetWindowBorderWidth (window c4) (old_border c4)) w5;
      let w7 = emit (XRemoveFromSaveSet (window c4)) w6;
      let w8 = (if parent c4 \<noteq> 0 then emit (XDestroyWindow (parent c4)) w7 else w7);
      let w9 = w8\<lparr>clients_tab_order := list_delete E (clients_tab_order w8) c\<rparr>;
      let w10 = w9\<lparr>clients_mapping_order := list_delete E (clients_mapping_order w9) c\<rparr>;
      let w11 = w10\<lparr>clients_stacking_order := list_delete E (clients_stacking_order w10) c\<rparr>;
      let w12 = (if remove c4 \<noteq> 0
                 then emit (ewmh_set_net_client_list_stacking (screen c4))
                        (emit (ewmh_set_net_client_list (screen c4)) w11)
                 else w11);
      let w13 = (if current w12 = Some c
                 then emit (ewmh_set_net_wm_state c) (w12\<lparr>current := None\<rparr>)
                 else w12);
      let w14 = w13\<lparr>heap := (heap w13)(c := None)\<rparr>;
      let w15 = emit XUngrabServer w14;
      let w16 = emit (XSync False) w15;
      Some (emit (Assign_ignore_xerror 0) (w16\<lparr>ignore_xerror := 0\<rparr>))
    }"

section \<open>Vocabulary of the properties\<close>

text \<open>
  The gravity table as the specification words it (section 4.3): the offset \<open>(dx, dy)\<close>
  for a gravity and a border delta \<open>d\<close>; any other gravity value behaves as north-west.
\<close>

definition spec_gravity_offset :: "cint \<Rightarrow> cint \<Rightarrow> cint \<times> cint" where
  "spec_gravity_offset g d =
    (if g = NorthWestGravity then (d, d)
     else if g = NorthGravity then (0, d)
     else if g = NorthEastGravity then (- d, d)
     else if g = WestGravity then (d, 0)
     else if g = CenterGravity then (0, 0)
     else if g = EastGravity then (- d, 0)
     else if g = SouthWestGravity then (d, - d)
     else if g = SouthGravity then (0, - d)
     else if g = SouthEastGravity then (- d, - d)
     else (d, d))"

text \<open>
  The maximized-axis suppression rule of the specification: a client at 0 that is as wide
  (as high) as the display is not moved along that axis.
\<close>

definition x_suppressed :: "env \<Rightarrow> client \<Rightarrow> bool" where
  "x_suppressed E c = (x c = 0 \<and> width c = DisplayWidth E (screen.screen (screen c)))"

definition y_suppressed :: "env \<Rightarrow> client \<Rightarrow> bool" where
  "y_suppressed E c = (y c = 0 \<and> height c = DisplayHeight E (screen.screen (screen c)))"

text \<open>A pointer that is \<open>NULL\<close> or the address of an allocated client.\<close>

definition live :: "world \<Rightarrow> cptr option \<Rightarrow> bool" where
  "live w c = (case c of None \<Rightarrow> True | Some p \<Rightarrow> heap w p \<noteq> None)"

text \<open>A sequence of \<open>select_client\<close> calls, and what "selected" means: being \<open>current\<close>.\<close>

fun select_clients :: "env \<Rightarrow> cptr option list \<Rightarrow> world \<Rightarrow> world option" where
  "select_clients E [] w = Some w"
| "select_clients E (c # cs) w =
    (case select_client E c w of None \<Rightarrow> None | Some w' \<Rightarrow> select_clients E cs w')"

definition selected :: "world \<Rightarrow> cptr \<Rightarrow> bool" where
  "selected w c = (current w = Some c)"

text \<open>
  The border colour a window holds after a sequence of requests: the pixel of the last
  \<open>XSetWindowBorder\<close> on it.
\<close>

definition border_step :: "effect \<Rightarrow> (xid \<rightharpoonup> xid) \<Rightarrow> (xid \<rightharpoonup> xid)" where
  "border_step e b = (case e of XSetWindowBorder wid p \<Rightarrow> b(wid \<mapsto> p) | _ \<Rightarrow> b)"

definition window_border :: "effect list \<Rightarrow> xid \<rightharpoonup> xid" where
  "window_border es = fold border_step es Map.empty"

text \<open>The reparent requests of a trace, and "an \<open>a\<close> happens before a \<open>b\<close>" in a trace.\<close>

definition is_reparent :: "effect \<Rightarrow> bool" where
  "is_reparent e = (case e of XReparentWindow _ _ _ _ \<Rightarrow> True | _ \<Rightarrow> False)"

fun occurs_before :: "effect \<Rightarrow> effect \<Rightarrow> effect list \<Rightarrow> bool" where
  "occurs_before a b [] = False"
| "occurs_before a b (e # es) = ((e = a \<and> b \<in> set es) \<or> occurs_before a b es)"

text \<open>
  What \<open>remove_client\<close> does between its first two and its last three effects, for the
  client \<open>cl\<close> at address \<open>c\<close> when \<open>current\<close> is \<open>cur\<close>.
\<close>

definition remove_client_requests :: "env \<Rightarrow> cptr \<Rightarrow> client \<Rightarrow> cptr option \<Rightarrow> effect list" where
  "remove_client_requests E c cl cur =
    (let c2 = client_gravitate E (client_gravitate E cl (- border cl)) (old_border cl) in
     (if remove cl \<noteq> 0
      then (if cur = Some c then [XSetInputFocus PointerRoot] else []) @
           [XChangeProperty (window cl) ''WM_STATE'' [scast WithdrawnState, None_xid],
            ewmh_withdraw_client c]
      else [ewmh_remove_allowed_actions c]) @
     [XReparentWindow (window cl) (root (screen cl)) (x c2 - old_border cl) (y c2 - old_border cl),
      XSetWindowBorderWidth (window cl) (old_border cl),
      XRemoveFromSaveSet (window cl)] @
     (if parent cl \<noteq> 0 then [XDestroyWindow (parent cl)] else []) @
     (if remove cl \<noteq> 0
      then [ewmh_set_net_client_list (screen cl), ewmh_set_net_client_list_stacking (screen cl)]
      else []) @
     (if cur = Some c then [ewmh_set_net_wm_state c] else []))"

subsection \<open>An example state\<close>

text \<open>
  A display of 300 by 100 pixels with three monitors side by side, eight virtual desktops
  with \<open>0xffffffff\<close> as the fixed one, and two clients: the first has border 2, original
  border 1, south-east gravity and geometry (10, 10, 50, 50) and is being withdrawn; the
  second is fixed.
\<close>

definition example_env :: env where
  "example_env =
    \<lparr>valid_vdesk = (\<lambda>v. v = 0xffffffff \<or> v < 8),
     VDESK_FIXED = 0xffffffff,
     is_fixed = (\<lambda>c. vdesk c = 0xffffffff),
     list_delete = (\<lambda>l c. remove1 c l),
     DisplayWidth = (\<lambda>s. 300),
     DisplayHeight = (\<lambda>s. 100)\<rparr>"

definition example_screen :: screen where
  "example_screen =
    \<lparr>screen.screen = 0, root = 7, vdesk = 2,
     monitors = [\<lparr>monitor.x = 0, y = 0, width = 100, height = 100\<rparr>,
                 \<lparr>monitor.x = 100, y = 0, width = 100, height = 100\<rparr>,
                 \<lparr>monitor.x = 200, y = 0, width = 100, height = 100\<rparr>],
     fg_pixel = 1, bg_pixel = 2, fc_pixel = 3\<rparr>"

definition example_client :: client where
  "example_client =
    \<lparr>window = 11, parent = 12, screen = example_screen,
     x = 10, y = 10, width = 50, height = 50, border = 2, old_border = 1,
     min_width = 1, min_height = 1, max_width = 0, max_height = 0,
     base_width = 0, base_height = 0, width_inc = 1, height_inc = 1,
     win_gravity_hint = 9, win_gravity = 9, cmap = 5, vdesk = 2,
     is_dock = 0, ignore_unmap = 0, remove = 1\<rparr>"

definition example_fixed_client :: client where
  "example_fixed_client =
    \<lparr>window = 21, parent = 22, screen = example_screen,
     x = 0, y = 40, width = 300, height = 20, border = 1, old_border = 0,
     min_width = 1, min_height = 1, max_width = 0, max_height = 0,
     base_width = 0, base_height = 0, width_inc = 1, height_inc = 1,
     win_gravity_hint = 1, win_gravity = 1, cmap = 5, vdesk = 0xffffffff,
     is_dock = 0, ignore_unmap = 0, remove = 0\<rparr>"

definition example_world :: world where
  "example_world =
    \<lparr>heap = [1 \<mapsto> example_client, 2 \<mapsto> example_fixed_client],
     clients_tab_order = [1, 2],
     clients_mapping_order = [1, 2],
     clients_stacking_order = [1, 2],
     current = Some 1,
     ignore_xerror = 0,
     xlog = []\<rparr>"

definition example_hints :: XSizeHints where
  "example_hints =
    \<lparr>flags = 0, min_width = 0, min_height = 0, max_width = 0, max_height = 0,
     width_inc = 0, height_inc = 0, base_width = 0, base_height = 0, win_gravity = 0\<rparr>"

definition example_conflicting_hints :: XSizeHints where
  "example_conflicting_hints =
    \<lparr>flags = 48, min_width = 100, min_height = 80, max_width = 50, max_height = 40,
     width_inc = 0, height_inc = 0, base_width = 0, base_height = 0, win_gravity = 0\<rparr>"

definition example_base_hints :: XSizeHints where
  "example_base_hints =
    \<lparr>flags = 320, min_width = 0, min_height = 0, max_width = 0, max_height = 0,
     width_inc = 0, height_inc = 7, base_width = 10, base_height = 20, win_gravity = 0\<rparr>"

section \<open>Geometry and gravity\<close>

lemmas gravity_defs = NorthWestGravity_def NorthGravity_def NorthEastGravity_def WestGravity_def
  CenterGravity_def EastGravity_def SouthWestGravity_def SouthGravity_def SouthEastGravity_def

lemmas example_defs = example_env_def example_screen_def example_client_def
  example_fixed_client_def example_world_def example_hints_def

lemma client_gravitate_eq:
  "client_gravitate E c d =
     c\<lparr>x := (if x_suppressed E c then x c else x c + fst (spec_gravity_offset (win_gravity c) d)),
       y := (if y_suppressed E c then y c else y c + snd (spec_gravity_offset (win_gravity c) d))\<rparr>"
  by (simp add: client_gravitate_def spec_gravity_offset_def x_suppressed_def y_suppressed_def
      Let_def gravity_defs)

lemma client_gravitate_frame:
  "window (client_gravitate E c d) = window c"
  "parent (client_gravitate E c d) = parent c"
  "screen (client_gravitate E c d) = screen c"
  "width (client_gravitate E c d) = width c"
  "height (client_gravitate E c d) = height c"
  "border (client_gravitate E c d) = border c"
  "old_border (client_gravitate E c d) = old_border c"
  "remove (client_gravitate E c d) = remove c"
  "win_gravity (client_gravitate E c d) = win_gravity c"
  by (simp_all add: client_gravitate_eq)

lemma spec_gravity_offset_neg:
  "spec_gravity_offset g (- d) = (- fst (spec_gravity_offset g d), - snd (spec_gravity_offset g d))"
  by (simp add: spec_gravity_offset_def)

text \<open>
  C2: \<open>client_gravitate(c, d)\<close> adds to \<open>(x, y)\<close> the offset that the nine-entry table
  gives for the client's effective gravity \<open>win_gravity\<close> (any other value as north-west);
  the x component is left out when \<open>x\<close> is 0 and the width is the display's width, the y
  component, independently, when \<open>y\<close> is 0 and the height is the display's height. No other
  field changes.
\<close>

theorem client_gravitate_table:
  "client_gravitate E c d =
     c\<lparr>x := (if x c = 0 \<and> width c = DisplayWidth E (screen.screen (screen c)) then x c
              else x c + fst (spec_gravity_offset (win_gravity c) d)),
       y := (if y c = 0 \<and> height c = DisplayHeight E (screen.screen (screen c)) then y c
              else y c + snd (spec_gravity_offset (win_gravity c) d))\<rparr>"
  by (simp add: client_gravitate_eq x_suppressed_def y_suppressed_def)

text \<open>
  At the example clients: south-east gravity moves (10, 10) to (8, 8) for a border of 2;
  the fixed client spans the display's width at \<open>x = 0\<close>, so north-west gravity moves only
  its \<open>y\<close>.
\<close>

theorem client_gravitate_table_witness:
  "client_gravitate example_env example_client 2 = example_client\<lparr>x := 8, y := 8\<rparr> \<and>
   client_gravitate example_env example_fixed_client 2 = example_fixed_client\<lparr>y := 42\<rparr>"
  unfolding client_gravitate_table [of example_env example_client 2]
    client_gravitate_table [of example_env example_fixed_client 2]
  by (simp add: example_defs spec_gravity_offset_def gravity_defs)

text \<open>
  C3: where the suppression rule applies on neither axis, neither before the first call nor
  before the second, \<open>gravitate(c, b)\<close> followed by \<open>gravitate(c, -b)\<close> restores \<open>x\<close> and
  \<open>y\<close>, and with them the whole client.
\<close>

theorem client_gravitate_inverse:
  assumes "\<not> x_suppressed E c" and "\<not> y_suppressed E c"
    and "\<not> x_suppressed E (client_gravitate E c b)"
    and "\<not> y_suppressed E (client_gravitate E c b)"
  shows "x (client_gravitate E (client_gravitate E c b) (- b)) = x c \<and>
         y (client_gravitate E (client_gravitate E c b) (- b)) = y c \<and>
         client_gravitate E (client_gravitate E c b) (- b) = c"
proof -
  let ?c1 = "client_gravitate E c b"
  have c1: "?c1 = c\<lparr>x := x c + fst (spec_gravity_offset (win_gravity c) b),
                     y := y c + snd (spec_gravity_offset (win_gravity c) b)\<rparr>"
    using assms(1,2) by (simp add: client_gravitate_eq)
  have "client_gravitate E ?c1 (- b) =
        ?c1\<lparr>x := x ?c1 + fst (spec_gravity_offset (win_gravity ?c1) (- b)),
            y := y ?c1 + snd (spec_gravity_offset (win_gravity ?c1) (- b))\<rparr>"
    using assms(3,4) by (subst client_gravitate_eq) simp
  also have "\<dots> = c"
    unfolding client_gravitate_frame by (simp add: c1 spec_gravity_offset_neg)
  finally have "client_gravitate E ?c1 (- b) = c" .
  then show ?thesis by simp
qed

theorem client_gravitate_inverse_witness:
  "\<not> x_suppressed example_env example_client \<and>
   \<not> y_suppressed example_env example_client \<and>
   \<not> x_suppressed example_env (client_gravitate example_env example_client 2) \<and>
   \<not> y_suppressed example_env (client_gravitate example_env example_client 2) \<and>
   client_gravitate example_env (client_gravitate example_env example_client 2) (- 2) =
     example_client"
proof -
  have a: "\<not> x_suppressed example_env example_client"
    and b: "\<not> y_suppressed example_env example_client"
    by (simp_all add: x_suppressed_def y_suppressed_def example_defs)
  have c: "\<not> x_suppressed example_env (client_gravitate example_env example_client 2)"
    and d: "\<not> y_suppressed example_env (client_gravitate example_env example_client 2)"
    by (simp_all add: client_gravitate_eq x_suppressed_def y_suppressed_def example_defs
        spec_gravity_offset_def gravity_defs)
  from client_gravitate_inverse [OF a b c d] a b c d show ?thesis by simp
qed

section \<open>Size hints\<close>

lemmas hint_flag_defs = PMinSize_def PMaxSize_def PResizeInc_def PBaseSize_def PWinGravity_def

text \<open>
  C4: when the hints carry no minimum size (\<open>PMinSize\<close> not set), the client ends with
  \<open>min_width = base_width + width_inc\<close> and \<open>min_height = base_height + height_inc\<close>;
  with no minimum, maximum, base and increment the increments are (1, 1), the base (0, 0),
  the minimum (1, 1) and the maximum (0, 0). The function has no failing branch: it returns
  the client and the hint flags.
\<close>

theorem get_wm_normal_hints_no_min:
  assumes "XSizeHints.flags sz AND PMinSize = 0"
  shows "min_width (fst (get_wm_normal_hints sz c)) =
           base_width (fst (get_wm_normal_hints sz c)) + width_inc (fst (get_wm_normal_hints sz c)) \<and>
         min_height (fst (get_wm_normal_hints sz c)) =
           base_height (fst (get_wm_normal_hints sz c)) + height_inc (fst (get_wm_normal_hints sz c)) \<and>
         snd (get_wm_normal_hints sz c) = XSizeHints.flags sz \<and>
         (XSizeHints.flags sz AND PMaxSize = 0 \<and> XSizeHints.flags sz AND PBaseSize = 0 \<and>
          XSizeHints.flags sz AND PResizeInc = 0 \<longrightarrow>
            width_inc (fst (get_wm_normal_hints sz c)) = 1 \<and>
            height_inc (fst (get_wm_normal_hints sz c)) = 1 \<and>
            base_width (fst (get_wm_normal_hints sz c)) = 0 \<and>
            base_height (fst (get_wm_normal_hints sz c)) = 0 \<and>
            min_width (fst (get_wm_normal_hints sz c)) = 1 \<and>
            min_height (fst (get_wm_normal_hints sz c)) = 1 \<and>
            max_width (fst (get_wm_normal_hints sz c)) = 0 \<and>
            max_height (fst (get_wm_normal_hints sz c)) = 0)"
  using assms by (simp add: get_wm_normal_hints_def Let_def)

text \<open>
  At hints with no flag at all, and at hints with a base size (10, 20) and an increment
  (0, 7), whose zero is coerced to 1: the minimum is (11, 27).
\<close>

theorem get_wm_normal_hints_no_min_witness:
  "XSizeHints.flags example_hints AND PMinSize = 0 \<and>
   get_wm_normal_hints example_hints example_fixed_client =
     (example_fixed_client\<lparr>min_width := 1, min_height := 1, max_width := 0, max_height := 0,
        base_width := 0, base_height := 0, width_inc := 1, height_inc := 1,
        win_gravity_hint := 1, win_gravity := 1\<rparr>, 0) \<and>
   XSizeHints.flags example_base_hints AND PMinSize = 0 \<and>
   min_width (fst (get_wm_normal_hints example_base_hints example_client)) = 11 \<and>
   min_height (fst (get_wm_normal_hints example_base_hints example_client)) = 27"
proof -
  have a: "XSizeHints.flags example_hints AND PMinSize = 0"
    by (simp add: example_hints_def PMinSize_def)
  have b: "XSizeHints.flags example_base_hints AND PMinSize = 0"
    by (simp add: example_base_hints_def PMinSize_def)
  have c: "get_wm_normal_hints example_hints example_fixed_client =
     (example_fixed_client\<lparr>min_width := 1, min_height := 1, max_width := 0, max_height := 0,
        base_width := 0, base_height := 0, width_inc := 1, height_inc := 1,
        win_gravity_hint := 1, win_gravity := 1\<rparr>, 0)"
    using get_wm_normal_hints_no_min [OF a, of example_fixed_client]
    by (simp add: get_wm_normal_hints_def Let_def example_hints_def example_fixed_client_def
        hint_flag_defs NorthWestGravity_def)
  have d: "base_width (fst (get_wm_normal_hints example_base_hints example_client)) = 10"
    "base_height (fst (get_wm_normal_hints example_base_hints example_client)) = 20"
    "width_inc (fst (get_wm_normal_hints example_base_hints example_client)) = 1"
    "height_inc (fst (get_wm_normal_hints example_base_hints example_client)) = 7"
    by (simp_all add: get_wm_normal_hints_def Let_def example_base_hints_def hint_flag_defs)
  from get_wm_normal_hints_no_min [OF b, of example_client] a b c d show ?thesis
    by simp
qed

text \<open>
  C10: a minimum and a maximum that the hints supply are copied as they are and never
  compared with each other: if the supplied maximum is below the supplied minimum on an
  axis (as signed \<open>int\<close>s), so is the client's.
\<close>

theorem get_wm_normal_hints_min_max_verbatim:
  assumes "XSizeHints.flags sz AND PMinSize \<noteq> 0" and "XSizeHints.flags sz AND PMaxSize \<noteq> 0"
  shows "min_width (fst (get_wm_normal_hints sz c)) = XSizeHints.min_width sz \<and>
         min_height (fst (get_wm_normal_hints sz c)) = XSizeHints.min_height sz \<and>
         max_width (fst (get_wm_normal_hints sz c)) = XSizeHints.max_width sz \<and>
         max_height (fst (get_wm_normal_hints sz c)) = XSizeHints.max_height sz \<and>
         (XSizeHints.max_width sz <s XSizeHints.min_width sz \<longrightarrow>
            max_width (fst (get_wm_normal_hints sz c)) <s min_width (fst (get_wm_normal_hints sz c))) \<and>
         (XSizeHints.max_height sz <s XSizeHints.min_height sz \<longrightarrow>
            max_height (fst (get_wm_normal_hints sz c)) <s min_height (fst (get_wm_normal_hints sz c)))"
  using assms by (simp add: get_wm_normal_hints_def Let_def)

text \<open>
  At hints with minimum (100, 80) and maximum (50, 40).
\<close>

theorem get_wm_normal_hints_min_max_verbatim_witness:
  "XSizeHints.flags example_conflicting_hints AND PMinSize \<noteq> 0 \<and>
   XSizeHints.flags example_conflicting_hints AND PMaxSize \<noteq> 0 \<and>
   XSizeHints.max_width example_conflicting_hints <s XSizeHints.min_width example_conflicting_hints \<and>
   XSizeHints.max_height example_conflicting_hints <s XSizeHints.min_height example_conflicting_hints \<and>
   min_width (fst (get_wm_normal_hints example_conflicting_hints example_client)) = 100 \<and>
   max_width (fst (get_wm_normal_hints example_conflicting_hints example_client)) = 50 \<and>
   min_height (fst (get_wm_normal_hints example_conflicting_hints example_client)) = 80 \<and>
   max_height (fst (get_wm_normal_hints example_conflicting_hints example_client)) = 40 \<and>
   max_width (fst (get_wm_normal_hints example_conflicting_hints example_client))
     <s min_width (fst (get_wm_normal_hints example_conflicting_hints example_client)) \<and>
   max_height (fst (get_wm_normal_hints example_conflicting_hints example_client))
     <s min_height (fst (get_wm_normal_hints example_conflicting_hints example_client))"
proof -
  have a: "XSizeHints.flags example_conflicting_hints AND PMinSize \<noteq> 0"
    and b: "XSizeHints.flags example_conflicting_hints AND PMaxSize \<noteq> 0"
    by (simp_all add: example_conflicting_hints_def hint_flag_defs)
  have c: "XSizeHints.max_width example_conflicting_hints <s XSizeHints.min_width example_conflicting_hints"
    and d: "XSizeHints.max_height example_conflicting_hints <s XSizeHints.min_height example_conflicting_hints"
    and e: "XSizeHints.min_width example_conflicting_hints = 100"
      "XSizeHints.max_width example_conflicting_hints = 50"
      "XSizeHints.min_height example_conflicting_hints = 80"
      "XSizeHints.max_height example_conflicting_hints = 40"
    by (simp_all add: example_conflicting_hints_def)
  from get_wm_normal_hints_min_max_verbatim [OF a b, of example_client] a b c d e
  show ?thesis by simp
qed

section \<open>Monitor assignment\<close>

lemma client_monitor_loop_was_inside:
  "client_monitor_loop midx midy ms i True best = best"
  by (induction ms arbitrary: i) simp_all

lemma client_monitor_loop_none:
  "\<forall>k<length ms. \<not> is_inside midx midy (ms ! k) \<Longrightarrow>
   client_monitor_loop midx midy ms i False None = None"
proof (induction ms arbitrary: i)
  case Nil
  then show ?case by simp
next
  case (Cons m ms)
  from Cons.prems have hd: "\<not> is_inside midx midy m" by fastforce
  from Cons.prems have tl: "\<forall>k<length ms. \<not> is_inside midx midy (ms ! k)" by fastforce
  show ?case using hd Cons.IH [OF tl] by simp
qed

lemma client_monitor_loop_first:
  "k < length ms \<Longrightarrow> is_inside midx midy (ms ! k) \<Longrightarrow>
   \<forall>j<k. \<not> is_inside midx midy (ms ! j) \<Longrightarrow>
   client_monitor_loop midx midy ms i False None = Some (i + k)"
proof (induction ms arbitrary: i k)
  case Nil
  then show ?case by simp
next
  case (Cons m ms)
  show ?case
  proof (cases k)
    case 0
    with Cons.prems show ?thesis by (simp add: client_monitor_loop_was_inside)
  next
    case (Suc k')
    with Cons.prems have hd: "\<not> is_inside midx midy m" by fastforce
    from Suc Cons.prems have a: "k' < length ms" "is_inside midx midy (ms ! k')" by simp_all
    from Suc Cons.prems have b: "\<forall>j<k'. \<not> is_inside midx midy (ms ! j)" by fastforce
    show ?thesis using hd Cons.IH [OF a b, of "Suc i"] Suc by simp
  qed
qed

lemma client_monitor_first:
  assumes "k < length (monitors (screen c))"
    and "is_inside (x c + c_div (width c) 2) (y c + c_div (height c) 2) (monitors (screen c) ! k)"
    and "\<forall>j<k. \<not> is_inside (x c + c_div (width c) 2) (y c + c_div (height c) 2)
                    (monitors (screen c) ! j)"
  shows "client_monitor c = k"
  using client_monitor_loop_first [OF assms, of 0] by (simp add: client_monitor_def Let_def)

lemma client_monitor_fallback:
  assumes "\<forall>k<length (monitors (screen c)).
             \<not> is_inside (x c + c_div (width c) 2) (y c + c_div (height c) 2)
                 (monitors (screen c) ! k)"
  shows "client_monitor c = 0"
  using client_monitor_loop_none [OF assms, of 0] by (simp add: client_monitor_def Let_def)

text \<open>
  C6: with the center point \<open>(x + width/2, y + height/2)\<close>, \<open>client_monitor\<close> returns
  the index \<open>k\<close> of the first monitor of the screen's list that contains it (no monitor
  before \<open>k\<close> does), and index 0 when no monitor contains it. The function reads the
  client and returns the monitor only: there is no client to return changed.
\<close>

theorem client_monitor_first_match:
  "(k < length (monitors (screen c)) \<and>
    is_inside (x c + c_div (width c) 2) (y c + c_div (height c) 2) (monitors (screen c) ! k) \<and>
    (\<forall>j<k. \<not> is_inside (x c + c_div (width c) 2) (y c + c_div (height c) 2)
               (monitors (screen c) ! j))
    \<longrightarrow> client_monitor c = k) \<and>
   ((\<forall>k<length (monitors (screen c)).
       \<not> is_inside (x c + c_div (width c) 2) (y c + c_div (height c) 2) (monitors (screen c) ! k))
    \<longrightarrow> client_monitor c = 0)"
  using client_monitor_first [of k c] client_monitor_fallback [of c] by blast

lemma c_div_2_examples: "c_div 50 2 = 25"
  by (simp add: c_div_def signed_divide_int_def)

text \<open>
  The three monitors at \<open>x = 0, 100, 200\<close>, each 100 wide: a client centered at
  \<open>x = 150\<close> gets the monitor at 100 (index 1), one centered at \<open>x = 500\<close> index 0.
\<close>

theorem client_monitor_first_match_witness:
  "x (example_client\<lparr>x := 125\<rparr>) + c_div (width (example_client\<lparr>x := 125\<rparr>)) 2 = 150 \<and>
   client_monitor (example_client\<lparr>x := 125\<rparr>) = 1 \<and>
   x (example_client\<lparr>x := 475\<rparr>) + c_div (width (example_client\<lparr>x := 475\<rparr>)) 2 = 500 \<and>
   client_monitor (example_client\<lparr>x := 475\<rparr>) = 0"
proof -
  have a: "client_monitor (example_client\<lparr>x := 125\<rparr>) = 1"
    using client_monitor_first_match [THEN conjunct1, of 1 "example_client\<lparr>x := 125\<rparr>"]
    by (simp add: example_client_def example_screen_def is_inside_def c_div_2_examples
        word_sle_eq word_sless_alt)
  have b: "client_monitor (example_client\<lparr>x := 475\<rparr>) = 0"
    using client_monitor_first_match [THEN conjunct2, of "example_client\<lparr>x := 475\<rparr>"]
    by (simp add: example_client_def example_screen_def is_inside_def c_div_2_examples
        word_sle_eq word_sless_alt All_less_Suc)
  show ?thesis using a b by (simp add: example_client_def c_div_2_examples)
qed

lemma sint_add_in_range:
  fixes a b :: cint
  assumes "- (2 ^ 31) \<le> sint a + sint b" "sint a + sint b < 2 ^ 31"
  shows "sint (a + b) = sint a + sint b"
  using assms by (simp add: sint_word_add signed_take_bit_int_eq_self)

lemma left_edge_less_right_edge:
  fixes a b :: cint
  assumes "0 <s b" "sint a + sint b < 2 ^ 31"
  shows "a <s a + b"
proof -
  from assms(1) have pos: "0 < sint b" by (simp add: word_sless_alt)
  have "- (2 ^ 31) \<le> sint a" using sint_ge [of a] by simp
  with pos have "- (2 ^ 31) \<le> sint a + sint b" by linarith
  then have "sint (a + b) = sint a + sint b" using assms(2) by (rule sint_add_in_range)
  with pos show ?thesis by (simp add: word_sless_alt)
qed

lemma is_inside_left_edge:
  assumes "0 <s monitor.width m" "sint (monitor.x m) + sint (monitor.width m) < 2 ^ 31"
    and "monitor.y m \<le>s midy" "midy <s monitor.y m + monitor.height m"
  shows "is_inside (monitor.x m) midy m"
  using assms left_edge_less_right_edge [of "monitor.width m" "monitor.x m"]
  by (simp add: is_inside_def)

lemma is_inside_top_edge:
  assumes "0 <s monitor.height m" "sint (monitor.y m) + sint (monitor.height m) < 2 ^ 31"
    and "monitor.x m \<le>s midx" "midx <s monitor.x m + monitor.width m"
  shows "is_inside midx (monitor.y m) m"
  using assms left_edge_less_right_edge [of "monitor.height m" "monitor.y m"]
  by (simp add: is_inside_def)

lemma is_inside_right_edge: "\<not> is_inside (monitor.x m + monitor.width m) midy m"
  by (simp add: is_inside_def)

lemma is_inside_bottom_edge: "\<not> is_inside midx (monitor.y m + monitor.height m) m"
  by (simp add: is_inside_def)

text \<open>
  C9: containment is half-open on both axes. For a monitor of positive width whose right
  edge does not overflow, a center on the left edge is inside (given the other axis is);
  likewise the top edge; a center on the right edge \<open>m.x + m.width\<close> or on the bottom edge
  \<open>m.y + m.height\<close> is outside. Hence a client whose center lies where monitor \<open>k\<close> ends
  and monitor \<open>k + 1\<close> begins, and in no earlier monitor, gets monitor \<open>k + 1\<close>.
\<close>

theorem is_inside_half_open:
  "(0 <s monitor.width m \<and> sint (monitor.x m) + sint (monitor.width m) < 2 ^ 31 \<and>
    monitor.y m \<le>s midy \<and> midy <s monitor.y m + monitor.height m
    \<longrightarrow> is_inside (monitor.x m) midy m) \<and>
   (0 <s monitor.height m \<and> sint (monitor.y m) + sint (monitor.height m) < 2 ^ 31 \<and>
    monitor.x m \<le>s midx \<and> midx <s monitor.x m + monitor.width m
    \<longrightarrow> is_inside midx (monitor.y m) m) \<and>
   \<not> is_inside (monitor.x m + monitor.width m) midy m \<and>
   \<not> is_inside midx (monitor.y m + monitor.height m) m \<and>
   (Suc k < length (monitors (screen c)) \<and>
    monitor.x (monitors (screen c) ! Suc k) =
      monitor.x (monitors (screen c) ! k) + monitor.width (monitors (screen c) ! k) \<and>
    x c + c_div (width c) 2 = monitor.x (monitors (screen c) ! Suc k) \<and>
    0 <s monitor.width (monitors (screen c) ! Suc k) \<and>
    sint (monitor.x (monitors (screen c) ! Suc k)) +
      sint (monitor.width (monitors (screen c) ! Suc k)) < 2 ^ 31 \<and>
    monitor.y (monitors (screen c) ! Suc k) \<le>s y c + c_div (height c) 2 \<and>
    y c + c_div (height c) 2 <s
      monitor.y (monitors (screen c) ! Suc k) + monitor.height (monitors (screen c) ! Suc k) \<and>
    (\<forall>j<k. \<not> is_inside (x c + c_div (width c) 2) (y c + c_div (height c) 2)
               (monitors (screen c) ! j))
    \<longrightarrow> client_monitor c = Suc k)"
proof (intro conjI impI)
  assume a: "Suc k < length (monitors (screen c)) \<and>
    monitor.x (monitors (screen c) ! Suc k) =
      monitor.x (monitors (screen c) ! k) + monitor.width (monitors (screen c) ! k) \<and>
    x c + c_div (width c) 2 = monitor.x (monitors (screen c) ! Suc k) \<and>
    0 <s monitor.width (monitors (screen c) ! Suc k) \<and>
    sint (monitor.x (monitors (screen c) ! Suc k)) +
      sint (monitor.width (monitors (screen c) ! Suc k)) < 2 ^ 31 \<and>
    monitor.y (monitors (screen c) ! Suc k) \<le>s y c + c_div (height c) 2 \<and>
    y c + c_div (height c) 2 <s
      monitor.y (monitors (screen c) ! Suc k) + monitor.height (monitors (screen c) ! Suc k) \<and>
    (\<forall>j<k. \<not> is_inside (x c + c_div (width c) 2) (y c + c_div (height c) 2)
               (monitors (screen c) ! j))"
  let ?ms = "monitors (screen c)"
  let ?midx = "x c + c_div (width c) 2"
  let ?midy = "y c + c_div (height c) 2"
  from a have midx: "?midx = monitor.x (?ms ! Suc k)"
    and eqx: "monitor.x (?ms ! Suc k) = monitor.x (?ms ! k) + monitor.width (?ms ! k)"
    and len: "Suc k < length ?ms"
    and prev: "\<forall>j<k. \<not> is_inside ?midx ?midy (?ms ! j)"
    and pos: "0 <s monitor.width (?ms ! Suc k)"
    and rng: "sint (monitor.x (?ms ! Suc k)) + sint (monitor.width (?ms ! Suc k)) < 2 ^ 31"
    and y1: "monitor.y (?ms ! Suc k) \<le>s ?midy"
    and y2: "?midy <s monitor.y (?ms ! Suc k) + monitor.height (?ms ! Suc k)"
    by blast+
  have inside: "is_inside ?midx ?midy (?ms ! Suc k)"
    unfolding midx by (rule is_inside_left_edge [OF pos rng y1 y2])
  have notk: "\<not> is_inside ?midx ?midy (?ms ! k)"
    unfolding midx eqx by (rule is_inside_right_edge)
  have before: "\<forall>j<Suc k. \<not> is_inside ?midx ?midy (?ms ! j)"
    using prev notk by (auto simp: less_Suc_eq)
  show "client_monitor c = Suc k"
    using len inside before by (rule client_monitor_first)
qed (simp_all add: is_inside_left_edge is_inside_top_edge is_inside_right_edge
    is_inside_bottom_edge)

text \<open>
  On the example screen: \<open>x = 100\<close> is the right edge of monitor 0 and the left edge of
  monitor 1; \<open>y = 0\<close> is the top edge and \<open>y = 100\<close> the bottom edge.
\<close>

theorem is_inside_half_open_witness:
  "is_inside 100 35 (monitors example_screen ! 1) \<and>
   \<not> is_inside 100 35 (monitors example_screen ! 0) \<and>
   is_inside 150 0 (monitors example_screen ! 1) \<and>
   \<not> is_inside 150 100 (monitors example_screen ! 1) \<and>
   x (example_client\<lparr>x := 75\<rparr>) + c_div (width (example_client\<lparr>x := 75\<rparr>)) 2 = 100 \<and>
   client_monitor (example_client\<lparr>x := 75\<rparr>) = 1"
proof -
  let ?m0 = "monitors example_screen ! 0"
  let ?m1 = "monitors example_screen ! 1"
  let ?c = "example_client\<lparr>x := 75\<rparr>"
  have a: "is_inside 100 35 ?m1"
    using is_inside_half_open [THEN conjunct1, of ?m1 35]
    by (simp add: example_screen_def word_sle_eq word_sless_alt)
  have b: "\<not> is_inside 100 35 ?m0"
    using is_inside_half_open [THEN conjunct2, THEN conjunct2, THEN conjunct1, of ?m0 35]
    by (simp add: example_screen_def)
  have c: "is_inside 150 0 ?m1"
    using is_inside_half_open [THEN conjunct2, THEN conjunct1, of ?m1 150]
    by (simp add: example_screen_def word_sle_eq word_sless_alt)
  have d: "\<not> is_inside 150 100 ?m1"
    using is_inside_half_open [THEN conjunct2, THEN conjunct2, THEN conjunct2, THEN conjunct1, of 150 ?m1]
    by (simp add: example_screen_def)
  have e: "client_monitor ?c = 1"
    using is_inside_half_open [THEN conjunct2, THEN conjunct2, THEN conjunct2, THEN conjunct2,
        of 0 ?c]
    by (simp add: example_client_def example_screen_def c_div_2_examples
        word_sle_eq word_sless_alt)
  show ?thesis using a b c d e by (simp add: example_client_def c_div_2_examples)
qed

section \<open>Selection\<close>

lemma xlog_emit: "xlog (emit e w) = xlog w @ [e]"
  and heap_emit: "heap (emit e w) = heap w"
  and current_emit: "current (emit e w) = current w"
  and ignore_xerror_emit: "ignore_xerror (emit e w) = ignore_xerror w"
  by (simp_all add: emit_def)

lemma select_client_current:
  "select_client E c w = Some w' \<Longrightarrow> current w' = c"
  by (auto simp: select_client_def Let_def current_emit split: option.splits bind_splits)

lemma select_clients_current:
  "select_clients E cs w = Some w' \<Longrightarrow> cs \<noteq> [] \<Longrightarrow> current w' = last cs"
proof (induction cs arbitrary: w)
  case Nil
  then show ?case by simp
next
  case (Cons c cs)
  from Cons.prems(1) obtain w1 where w1: "select_client E c w = Some w1"
    and rest: "select_clients E cs w1 = Some w'"
    by (auto split: option.splits)
  show ?case
  proof (cases cs)
    case Nil
    with rest w1 show ?thesis by (simp add: select_client_current)
  next
    case (Cons d ds)
    with Cons.IH [OF rest] show ?thesis by simp
  qed
qed

lemma card_selected: "card {c. selected w c} \<le> 1"
proof (cases "current w")
  case None
  then show ?thesis by (simp add: selected_def)
next
  case (Some p)
  then have "{c. selected w c} = {p}" by (auto simp: selected_def)
  then show ?thesis by simp
qed

lemma select_client_from_some:
  assumes "current w = Some a" "heap w a = Some ca" "heap w b = Some cb"
  shows "select_client E (Some b) w =
     Some (w\<lparr>current := Some b,
             xlog := xlog w @
               [XSetWindowBorder (parent ca) (bg_pixel (screen ca)),
                XSetWindowBorder (parent cb)
                  (if is_fixed E cb then fc_pixel (screen cb) else fg_pixel (screen cb)),
                XInstallColormap (cmap cb),
                XSetInputFocus (window cb),
                ewmh_set_net_wm_state a,
                ewmh_set_net_wm_state b]\<rparr>)"
  using assms by (simp add: select_client_def Let_def emit_def)

lemma select_client_total:
  assumes "live w (current w)" "live w c"
  shows "\<exists>w'. select_client E c w = Some w' \<and> heap w' = heap w \<and> current w' = c"
  using assms
  by (cases "current w"; cases c) (auto simp: live_def select_client_def Let_def emit_def)

lemma select_clients_total:
  assumes "live w (current w)" "\<forall>c\<in>set cs. live w c"
  shows "\<exists>w'. select_clients E cs w = Some w'"
  using assms
proof (induction cs arbitrary: w)
  case Nil
  then show ?case by simp
next
  case (Cons c cs)
  from Cons.prems have "live w c" by simp
  with Cons.prems(1) obtain w1 where w1: "select_client E c w = Some w1"
    and h1: "heap w1 = heap w" and c1: "current w1 = c"
    using select_client_total by blast
  have "live w1 (current w1)"
    using \<open>live w c\<close> by (auto simp: c1 live_def h1 split: option.splits)
  moreover have "\<forall>d\<in>set cs. live w1 d"
    using Cons.prems(2) by (auto simp: live_def h1 split: option.splits)
  ultimately obtain w' where "select_clients E cs w1 = Some w'"
    using Cons.IH by blast
  with w1 show ?case by simp
qed

lemma window_border_snoc: "window_border (es @ [e]) = border_step e (window_border es)"
  by (simp add: window_border_def)

lemma window_border_append:
  "window_border (es @ fs) = fold border_step fs (window_border es)"
  by (simp add: window_border_def)

text \<open>
  C7: after any sequence of \<open>select_client\<close> calls at most one client is selected
  (\<open>current\<close> is the last argument), and the sequence returns when \<open>current\<close> and the
  arguments are \<open>NULL\<close> or allocated. After \<open>select(A)\<close> and \<open>select(B)\<close> on allocated
  clients, \<open>B\<close> is selected; the second call sets the border of \<open>A\<close>'s frame to the
  inactive colour \<open>bg\<close>, then that of \<open>B\<close>'s frame to \<open>fc\<close> if \<open>B\<close> is fixed and to
  \<open>fg\<close> otherwise, installs the colormap, sets the input focus, and republishes the state
  flags of the old selection \<open>A\<close> and then of the new one \<open>B\<close>, in that order, also when
  \<open>A\<close> and \<open>B\<close> are the same client. So \<open>B\<close>'s frame holds the fixed or the active
  colour, and \<open>A\<close>'s frame holds the inactive colour when it is another window than
  \<open>B\<close>'s frame (a frame identifies at most one client, so that \<open>A \<noteq> B\<close>).
\<close>

theorem select_client_exclusive:
  "(select_clients E cs w = Some w' \<longrightarrow>
      card {c. selected w' c} \<le> 1 \<and> (cs \<noteq> [] \<longrightarrow> current w' = last cs)) \<and>
   (live w (current w) \<and> (\<forall>c\<in>set cs. live w c) \<longrightarrow>
      (\<exists>w'. select_clients E cs w = Some w')) \<and>
   (heap w a = Some ca \<and> heap w b = Some cb \<and> live w (current w) \<longrightarrow>
      (\<exists>w1 w2. select_client E (Some a) w = Some w1 \<and>
         select_client E (Some b) w1 = Some w2 \<and>
         selected w2 b \<and> (a \<noteq> b \<longrightarrow> \<not> selected w2 a) \<and>
         xlog w2 = xlog w1 @
           [XSetWindowBorder (parent ca) (bg_pixel (screen ca)),
            XSetWindowBorder (parent cb)
              (if is_fixed E cb then fc_pixel (screen cb) else fg_pixel (screen cb)),
            XInstallColormap (cmap cb),
            XSetInputFocus (window cb),
            ewmh_set_net_wm_state a,
            ewmh_set_net_wm_state b] \<and>
         window_border (xlog w2) (parent cb) =
           Some (if is_fixed E cb then fc_pixel (screen cb) else fg_pixel (screen cb)) \<and>
         (parent ca \<noteq> parent cb \<longrightarrow>
            window_border (xlog w2) (parent ca) = Some (bg_pixel (screen ca)))))"
proof (intro conjI impI)
  assume "select_clients E cs w = Some w'"
  then show "cs \<noteq> [] \<Longrightarrow> current w' = last cs" by (rule select_clients_current)
next
  show "card {c. selected w' c} \<le> 1" by (rule card_selected)
next
  assume "live w (current w) \<and> (\<forall>c\<in>set cs. live w c)"
  then show "\<exists>w'. select_clients E cs w = Some w'"
    using select_clients_total by blast
next
  assume a: "heap w a = Some ca \<and> heap w b = Some cb \<and> live w (current w)"
  then have "live w (Some a)" by (simp add: live_def)
  with a obtain w1 where w1: "select_client E (Some a) w = Some w1"
    and cur1: "current w1 = Some a" and heap1: "heap w1 = heap w"
    using select_client_total [of w "Some a" E] by blast
  from a heap1 have ha: "heap w1 a = Some ca" and hb: "heap w1 b = Some cb" by simp_all
  let ?delta = "[XSetWindowBorder (parent ca) (bg_pixel (screen ca)),
            XSetWindowBorder (parent cb)
              (if is_fixed E cb then fc_pixel (screen cb) else fg_pixel (screen cb)),
            XInstallColormap (cmap cb),
            XSetInputFocus (window cb),
            ewmh_set_net_wm_state a,
            ewmh_set_net_wm_state b]"
  let ?w2 = "w1\<lparr>current := Some b, xlog := xlog w1 @ ?delta\<rparr>"
  have w2: "select_client E (Some b) w1 = Some ?w2"
    by (rule select_client_from_some [OF cur1 ha hb])
  have sel: "selected ?w2 b \<and> (a \<noteq> b \<longrightarrow> \<not> selected ?w2 a)" by (auto simp: selected_def)
  have log: "xlog ?w2 = xlog w1 @ ?delta" by simp
  have bb: "window_border (xlog ?w2) (parent cb) =
           Some (if is_fixed E cb then fc_pixel (screen cb) else fg_pixel (screen cb))"
    by (simp add: window_border_append border_step_def)
  have ba: "parent ca \<noteq> parent cb \<longrightarrow>
            window_border (xlog ?w2) (parent ca) = Some (bg_pixel (screen ca))"
    by (simp add: window_border_append border_step_def)
  from w1 w2 sel log bb ba
  show "\<exists>w1 w2. select_client E (Some a) w = Some w1 \<and>
         select_client E (Some b) w1 = Some w2 \<and>
         selected w2 b \<and> (a \<noteq> b \<longrightarrow> \<not> selected w2 a) \<and>
         xlog w2 = xlog w1 @ ?delta \<and>
         window_border (xlog w2) (parent cb) =
           Some (if is_fixed E cb then fc_pixel (screen cb) else fg_pixel (screen cb)) \<and>
         (parent ca \<noteq> parent cb \<longrightarrow>
            window_border (xlog w2) (parent ca) = Some (bg_pixel (screen ca)))"
    by blast
qed

text \<open>
  In the example state client 1 is selected. Deselecting gives no selection; selecting
  client 1 and then the fixed client 2 leaves frame 12 with the inactive pixel 2 and frame
  22 with the fixed pixel 3.
\<close>

theorem select_client_exclusive_witness:
  "select_clients example_env [None] example_world =
     Some (example_world\<lparr>current := None,
             xlog := [XSetWindowBorder 12 2, ewmh_set_net_wm_state 1]\<rparr>) \<and>
   card {c. selected (example_world\<lparr>current := None,
             xlog := [XSetWindowBorder 12 2, ewmh_set_net_wm_state 1]\<rparr>) c} \<le> 1 \<and>
   live example_world (current example_world) \<and>
   (\<exists>w'. select_clients example_env [Some 2, None, Some 1, Some 1] example_world = Some w') \<and>
   heap example_world 1 = Some example_client \<and>
   heap example_world 2 = Some example_fixed_client \<and>
   (\<exists>w1 w2. select_client example_env (Some 1) example_world = Some w1 \<and>
      select_client example_env (Some 2) w1 = Some w2 \<and>
      selected w2 2 \<and> \<not> selected w2 1 \<and>
      xlog w2 = xlog w1 @
        [XSetWindowBorder 12 2, XSetWindowBorder 22 3, XInstallColormap 5, XSetInputFocus 21,
         ewmh_set_net_wm_state 1, ewmh_set_net_wm_state 2] \<and>
      window_border (xlog w2) 22 = Some 3 \<and>
      window_border (xlog w2) 12 = Some 2)"
proof -
  let ?w' = "example_world\<lparr>current := None,
             xlog := [XSetWindowBorder 12 2, ewmh_set_net_wm_state 1]\<rparr>"
  have run: "select_clients example_env [None] example_world = Some ?w'"
    by (simp add: select_client_def Let_def emit_def example_defs)
  have h1: "heap example_world 1 = Some example_client"
    and h2: "heap example_world 2 = Some example_fixed_client"
    by (simp_all add: example_world_def)
  have cur: "live example_world (current example_world)"
    by (simp add: live_def example_world_def)
  have args: "\<forall>c\<in>set [Some 2, None, Some 1, Some 1]. live example_world c"
    by (simp add: live_def example_world_def)
  from select_client_exclusive [THEN conjunct1, of example_env "[None]" example_world ?w'] run
  have one: "card {c. selected ?w' c} \<le> 1" by blast
  from select_client_exclusive [THEN conjunct2, THEN conjunct1,
      of example_world "[Some 2, None, Some 1, Some 1]" example_env] cur args
  have tot: "\<exists>w'. select_clients example_env [Some 2, None, Some 1, Some 1] example_world = Some w'"
    by blast
  from select_client_exclusive [THEN conjunct2, THEN conjunct2, of example_world 1 example_client 2
      example_fixed_client example_env] h1 h2 cur
  have two: "\<exists>w1 w2. select_client example_env (Some 1) example_world = Some w1 \<and>
      select_client example_env (Some 2) w1 = Some w2 \<and>
      selected w2 2 \<and> \<not> selected w2 1 \<and>
      xlog w2 = xlog w1 @
        [XSetWindowBorder 12 2, XSetWindowBorder 22 3, XInstallColormap 5, XSetInputFocus 21,
         ewmh_set_net_wm_state 1, ewmh_set_net_wm_state 2] \<and>
      window_border (xlog w2) 22 = Some 3 \<and>
      window_border (xlog w2) 12 = Some 2"
    by (simp add: example_client_def example_fixed_client_def example_screen_def example_env_def)
  from run one cur tot h1 h2 two show ?thesis by blast
qed

section \<open>Virtual desktops\<close>

lemma client_show_current: "client_show c w = Some w' \<Longrightarrow> current w' = current w"
  by (auto simp: client_show_def set_wm_state_def Let_def current_emit heap_emit split: bind_splits)

lemma client_hide_current: "client_hide c w = Some w' \<Longrightarrow> current w' = current w"
  by (auto simp: client_hide_def set_wm_state_def Let_def current_emit heap_emit split: bind_splits)

lemma client_show_result:
  assumes "heap w c = Some cl"
  shows "client_show c w =
    Some (w\<lparr>xlog := xlog w @ [XMapWindow (parent cl),
                               XChangeProperty (window cl) ''WM_STATE'' [scast NormalState, None_xid]]\<rparr>)"
  using assms by (simp add: client_show_def set_wm_state_def emit_def Let_def)

lemma client_hide_result:
  assumes "heap w c = Some cl"
  shows "client_hide c w =
    Some (w\<lparr>heap := (heap w)(c \<mapsto> cl\<lparr>ignore_unmap := ignore_unmap cl + 1\<rparr>),
            xlog := xlog w @ [XUnmapWindow (parent cl),
                               XChangeProperty (window cl) ''WM_STATE'' [scast IconicState, None_xid]]\<rparr>)"
  using assms by (simp add: client_hide_def set_wm_state_def emit_def Let_def)

lemma client_to_vdesk_returns:
  assumes v: "valid_vdesk E v" and h: "heap w c = Some cl" and l: "live w (current w)"
  shows "\<exists>w'. client_to_vdesk E c v w = Some w' \<and> current w' = current w \<and>
           heap w' = (heap w)(c \<mapsto> cl\<lparr>vdesk := v,
             ignore_unmap := (if v = screen.vdesk (screen cl) \<or> v = VDESK_FIXED E
                              then ignore_unmap cl else ignore_unmap cl + 1)\<rparr>)"
proof -
  let ?w1 = "w\<lparr>heap := (heap w)(c \<mapsto> cl\<lparr>vdesk := v\<rparr>)\<rparr>"
  have h1: "heap ?w1 c = Some (cl\<lparr>vdesk := v\<rparr>)" by simp
  show ?thesis
  proof (cases "v = screen.vdesk (screen cl) \<or> v = VDESK_FIXED E")
    case True
    let ?w3 = "emit (ewmh_set_net_wm_desktop c)
      (?w1\<lparr>xlog := xlog ?w1 @ [XMapWindow (parent (cl\<lparr>vdesk := v\<rparr>)),
         XChangeProperty (window (cl\<lparr>vdesk := v\<rparr>)) ''WM_STATE'' [scast NormalState, None_xid]]\<rparr>)"
    have run: "client_to_vdesk E c v w = select_client E (current ?w3) ?w3"
      using v h True by (simp add: client_to_vdesk_def Let_def client_show_result [OF h1])
    have "live ?w3 (current ?w3)" using l by (auto simp: live_def emit_def split: option.splits)
    then obtain w' where "select_client E (current ?w3) ?w3 = Some w'"
      "heap w' = heap ?w3" "current w' = current ?w3"
      using select_client_total by blast
    with run True show ?thesis by (simp add: emit_def)
  next
    case False
    let ?w3 = "emit (ewmh_set_net_wm_desktop c)
      (?w1\<lparr>heap := (heap ?w1)(c \<mapsto> cl\<lparr>vdesk := v\<rparr>\<lparr>ignore_unmap := ignore_unmap (cl\<lparr>vdesk := v\<rparr>) + 1\<rparr>),
         xlog := xlog ?w1 @ [XUnmapWindow (parent (cl\<lparr>vdesk := v\<rparr>)),
         XChangeProperty (window (cl\<lparr>vdesk := v\<rparr>)) ''WM_STATE'' [scast IconicState, None_xid]]\<rparr>)"
    have run: "client_to_vdesk E c v w = select_client E (current ?w3) ?w3"
      using v h False by (simp add: client_to_vdesk_def Let_def client_hide_result [OF h1])
    have "live ?w3 (current ?w3)" using l by (auto simp: live_def emit_def split: option.splits)
    then obtain w' where "select_client E (current ?w3) ?w3 = Some w'"
      "heap w' = heap ?w3" "current w' = current ?w3"
      using select_client_total by blast
    with run False show ?thesis by (simp add: emit_def)
  qed
qed

text \<open>
  C5: for an invalid desktop id \<open>client_to_vdesk\<close> returns the state as it was (and
  fails in no way, not even on a dangling client). For a valid one it stores the id in the
  client's \<open>vdesk\<close>, calls \<open>client_show\<close> when the id is the screen's current desktop or
  \<open>VDESK_FIXED\<close> and \<open>client_hide\<close> otherwise, publishes the desktop
  (\<open>ewmh_set_net_wm_desktop\<close>), and calls \<open>select_client\<close> on the client that was
  \<open>current\<close>. When the client and \<open>current\<close> are allocated the call returns, with the
  same \<open>current\<close> and with the client's \<open>vdesk\<close> set (and one more ignored unmap when
  it was hidden).
\<close>

theorem client_to_vdesk_contract:
  "(\<not> valid_vdesk E v \<longrightarrow> client_to_vdesk E c v w = Some w) \<and>
   (valid_vdesk E v \<and> heap w c = Some cl \<longrightarrow>
      client_to_vdesk E c v w =
        (if v = screen.vdesk (screen cl) \<or> v = VDESK_FIXED E
         then client_show c (w\<lparr>heap := (heap w)(c \<mapsto> cl\<lparr>vdesk := v\<rparr>)\<rparr>)
         else client_hide c (w\<lparr>heap := (heap w)(c \<mapsto> cl\<lparr>vdesk := v\<rparr>)\<rparr>))
        \<bind> (\<lambda>w2. select_client E (current w) (emit (ewmh_set_net_wm_desktop c) w2))) \<and>
   (valid_vdesk E v \<and> heap w c = Some cl \<and> live w (current w) \<longrightarrow>
      (\<exists>w'. client_to_vdesk E c v w = Some w' \<and> current w' = current w \<and>
         heap w' = (heap w)(c \<mapsto> cl\<lparr>vdesk := v,
           ignore_unmap := (if v = screen.vdesk (screen cl) \<or> v = VDESK_FIXED E
                            then ignore_unmap cl else ignore_unmap cl + 1)\<rparr>)))"
proof (intro conjI impI)
  assume "valid_vdesk E v \<and> heap w c = Some cl \<and> live w (current w)"
  then show "\<exists>w'. client_to_vdesk E c v w = Some w' \<and> current w' = current w \<and>
         heap w' = (heap w)(c \<mapsto> cl\<lparr>vdesk := v,
           ignore_unmap := (if v = screen.vdesk (screen cl) \<or> v = VDESK_FIXED E
                            then ignore_unmap cl else ignore_unmap cl + 1)\<rparr>)"
    using client_to_vdesk_returns by blast
next
  assume "\<not> valid_vdesk E v"
  then show "client_to_vdesk E c v w = Some w" by (simp add: client_to_vdesk_def)
next
  assume a: "valid_vdesk E v \<and> heap w c = Some cl"
  let ?w1 = "w\<lparr>heap := (heap w)(c \<mapsto> cl\<lparr>vdesk := v\<rparr>)\<rparr>"
  let ?sh = "if v = screen.vdesk (screen cl) \<or> v = VDESK_FIXED E
             then client_show c ?w1 else client_hide c ?w1"
  have cur: "current w2 = current w" if "?sh = Some w2" for w2
    using that client_show_current [of c ?w1 w2] client_hide_current [of c ?w1 w2]
    by (simp split: if_splits)
  have "client_to_vdesk E c v w =
        ?sh \<bind> (\<lambda>w2. select_client E (current (emit (ewmh_set_net_wm_desktop c) w2))
                        (emit (ewmh_set_net_wm_desktop c) w2))"
    using a by (simp add: client_to_vdesk_def Let_def)
  also have "\<dots> = ?sh \<bind> (\<lambda>w2. select_client E (current w) (emit (ewmh_set_net_wm_desktop c) w2))"
    by (cases ?sh) (simp_all add: current_emit cur)
  finally show "client_to_vdesk E c v w =
        ?sh \<bind> (\<lambda>w2. select_client E (current w) (emit (ewmh_set_net_wm_desktop c) w2))" .
qed


text \<open>
  In the example state (current desktop 2, client 1 selected): desktop 99 is invalid and
  nothing changes; desktop 5 hides client 1 (unmap, \<open>IconicState\<close>, one more ignored
  unmap); desktop 2 and the fixed desktop show it (map, \<open>NormalState\<close>); each is followed
  by the desktop property and the effects of selecting client 1 again, with the fixed
  colour once the client is fixed.
\<close>

theorem client_to_vdesk_contract_witness:
  "\<not> valid_vdesk example_env 99 \<and>
   client_to_vdesk example_env 1 99 example_world = Some example_world \<and>
   valid_vdesk example_env 5 \<and> valid_vdesk example_env 2 \<and>
   heap example_world 1 = Some example_client \<and>
   client_to_vdesk example_env 1 5 example_world =
     Some (example_world
        \<lparr>heap := (heap example_world)(1 \<mapsto> example_client\<lparr>vdesk := 5, ignore_unmap := 1\<rparr>),
         xlog := [XUnmapWindow 12, XChangeProperty 11 ''WM_STATE'' [3, 0],
                  ewmh_set_net_wm_desktop 1,
                  XSetWindowBorder 12 2, XSetWindowBorder 12 1, XInstallColormap 5,
                  XSetInputFocus 11, ewmh_set_net_wm_state 1, ewmh_set_net_wm_state 1]\<rparr>) \<and>
   client_to_vdesk example_env 1 2 example_world =
     Some (example_world
        \<lparr>heap := (heap example_world)(1 \<mapsto> example_client\<lparr>vdesk := 2\<rparr>),
         xlog := [XMapWindow 12, XChangeProperty 11 ''WM_STATE'' [1, 0],
                  ewmh_set_net_wm_desktop 1,
                  XSetWindowBorder 12 2, XSetWindowBorder 12 1, XInstallColormap 5,
                  XSetInputFocus 11, ewmh_set_net_wm_state 1, ewmh_set_net_wm_state 1]\<rparr>) \<and>
   live example_world (current example_world) \<and>
   (\<exists>w'. client_to_vdesk example_env 1 5 example_world = Some w' \<and>
      current w' = Some 1 \<and>
      heap w' = (heap example_world)(1 \<mapsto> example_client\<lparr>vdesk := 5, ignore_unmap := 1\<rparr>)) \<and>
   valid_vdesk example_env (VDESK_FIXED example_env) \<and>
   client_to_vdesk example_env 1 (VDESK_FIXED example_env) example_world =
     Some (example_world
        \<lparr>heap := (heap example_world)(1 \<mapsto> example_client\<lparr>vdesk := 0xffffffff\<rparr>),
         xlog := [XMapWindow 12, XChangeProperty 11 ''WM_STATE'' [1, 0],
                  ewmh_set_net_wm_desktop 1,
                  XSetWindowBorder 12 2, XSetWindowBorder 12 3, XInstallColormap 5,
                  XSetInputFocus 11, ewmh_set_net_wm_state 1, ewmh_set_net_wm_state 1]\<rparr>)"
proof -
  have inv: "\<not> valid_vdesk example_env 99"
    and v5: "valid_vdesk example_env 5" and v2: "valid_vdesk example_env 2"
    by (simp_all add: example_env_def)
  have h: "heap example_world 1 = Some example_client" by (simp add: example_world_def)
  have a: "client_to_vdesk example_env 1 99 example_world = Some example_world"
    using client_to_vdesk_contract [THEN conjunct1, of example_env 99 1 example_world] inv
    by simp
  note evals = client_hide_def client_show_def set_wm_state_def select_client_def emit_def
    Let_def example_defs IconicState_def NormalState_def None_xid_def
  have b: "client_to_vdesk example_env 1 5 example_world =
     Some (example_world
        \<lparr>heap := (heap example_world)(1 \<mapsto> example_client\<lparr>vdesk := 5, ignore_unmap := 1\<rparr>),
         xlog := [XUnmapWindow 12, XChangeProperty 11 ''WM_STATE'' [3, 0],
                  ewmh_set_net_wm_desktop 1,
                  XSetWindowBorder 12 2, XSetWindowBorder 12 1, XInstallColormap 5,
                  XSetInputFocus 11, ewmh_set_net_wm_state 1, ewmh_set_net_wm_state 1]\<rparr>)"
    using client_to_vdesk_contract [THEN conjunct2, THEN conjunct1,
        of example_env 5 example_world 1 example_client]
      v5 h
    by (simp add: evals)
  have c: "client_to_vdesk example_env 1 2 example_world =
     Some (example_world
        \<lparr>heap := (heap example_world)(1 \<mapsto> example_client\<lparr>vdesk := 2\<rparr>),
         xlog := [XMapWindow 12, XChangeProperty 11 ''WM_STATE'' [1, 0],
                  ewmh_set_net_wm_desktop 1,
                  XSetWindowBorder 12 2, XSetWindowBorder 12 1, XInstallColormap 5,
                  XSetInputFocus 11, ewmh_set_net_wm_state 1, ewmh_set_net_wm_state 1]\<rparr>)"
    using client_to_vdesk_contract [THEN conjunct2, THEN conjunct1,
        of example_env 2 example_world 1 example_client]
      v2 h
    by (simp add: evals)
  have vf: "valid_vdesk example_env (VDESK_FIXED example_env)"
    by (simp add: example_env_def)
  have d: "client_to_vdesk example_env 1 (VDESK_FIXED example_env) example_world =
     Some (example_world
        \<lparr>heap := (heap example_world)(1 \<mapsto> example_client\<lparr>vdesk := 0xffffffff\<rparr>),
         xlog := [XMapWindow 12, XChangeProperty 11 ''WM_STATE'' [1, 0],
                  ewmh_set_net_wm_desktop 1,
                  XSetWindowBorder 12 2, XSetWindowBorder 12 3, XInstallColormap 5,
                  XSetInputFocus 11, ewmh_set_net_wm_state 1, ewmh_set_net_wm_state 1]\<rparr>)"
    using client_to_vdesk_contract [THEN conjunct2, THEN conjunct1,
        of example_env "VDESK_FIXED example_env" example_world 1 example_client] vf h
    by (simp add: evals)
  have l: "live example_world (current example_world)"
    by (simp add: live_def example_world_def)
  have e: "\<exists>w'. client_to_vdesk example_env 1 5 example_world = Some w' \<and>
      current w' = Some 1 \<and>
      heap w' = (heap example_world)(1 \<mapsto> example_client\<lparr>vdesk := 5, ignore_unmap := 1\<rparr>)"
    using client_to_vdesk_contract [THEN conjunct2, THEN conjunct2,
        of example_env 5 example_world 1 example_client] v5 h l
    by (simp add: example_defs)
  from inv a v5 v2 h b c vf d l e show ?thesis by blast
qed

section \<open>Removal\<close>

lemma remove_client_xlog:
  assumes h: "heap w c = Some cl"
  shows "\<exists>w'. remove_client E c w = Some w' \<and>
           xlog w' = xlog w @ [XGrabServer, Assign_ignore_xerror 1] @
                       remove_client_requests E c cl (current w) @
                       [XUngrabServer, XSync False, Assign_ignore_xerror 0] \<and>
           ignore_xerror w' = 0 \<and> heap w' = (heap w)(c := None)"
proof -
  have cur: "(Some c = current w) = (current w = Some c)" by auto
  note defs = remove_client_def remove_client_requests_def set_wm_state_def Let_def
    xlog_emit heap_emit current_emit ignore_xerror_emit client_gravitate_frame cur
  show ?thesis
    using h
    by (cases "remove cl = 0"; cases "current w = Some c"; cases "parent cl = 0")
       (simp_all add: defs)
qed

lemma remove_client_requests_reparent:
  "filter is_reparent (remove_client_requests E c cl cur) =
     [XReparentWindow (window cl) (root (screen cl))
        (x (client_gravitate E (client_gravitate E cl (- border cl)) (old_border cl)) - old_border cl)
        (y (client_gravitate E (client_gravitate E cl (- border cl)) (old_border cl)) - old_border cl)]"
  by (simp add: remove_client_requests_def is_reparent_def Let_def)

lemma remove_client_requests_border_width:
  "XSetWindowBorderWidth (window cl) (old_border cl) \<in> set (remove_client_requests E c cl cur)"
  by (simp add: remove_client_requests_def Let_def)

lemma remove_client_requests_no_sync:
  "XSync b \<notin> set (remove_client_requests E c cl cur)"
  "Assign_ignore_xerror v \<notin> set (remove_client_requests E c cl cur)"
  by (simp_all add: remove_client_requests_def Let_def)

lemma south_east_undo:
  assumes "border cl = 2" "old_border cl = 1" "win_gravity cl = SouthEastGravity"
    "x cl = 10" "y cl = 10"
  shows "x (client_gravitate E (client_gravitate E cl (- border cl)) (old_border cl)) - old_border cl = 10"
    and "y (client_gravitate E (client_gravitate E cl (- border cl)) (old_border cl)) - old_border cl = 10"
  using assms
  by (simp_all add: client_gravitate_eq x_suppressed_def y_suppressed_def spec_gravity_offset_def
      gravity_defs)

text \<open>
  C1: \<open>remove_client\<close> issues one reparent request, to the screen's root, at the
  coordinates that result from \<open>client_gravitate\<close> with the negated current border, then
  \<open>client_gravitate\<close> with the original border, then the subtraction of the original
  border from \<open>x\<close> and \<open>y\<close>; it restores the original border width. For border 2,
  original border 1, south-east gravity and geometry (10, 10, 50, 50) the window is
  reparented at (10, 10): the south-east offsets \<open>+2\<close> and \<open>-1\<close> of the two calls and the
  subtracted border 1 cancel, so the displacement is 0 on both axes for every display size;
  width and height stay (50, 50).
\<close>

theorem remove_client_restores_geometry:
  assumes "heap w c = Some cl"
  shows "\<exists>w'. remove_client E c w = Some w' \<and>
     filter is_reparent (xlog w') = filter is_reparent (xlog w) @
       [XReparentWindow (window cl) (root (screen cl))
          (x (client_gravitate E (client_gravitate E cl (- border cl)) (old_border cl)) - old_border cl)
          (y (client_gravitate E (client_gravitate E cl (- border cl)) (old_border cl)) - old_border cl)] \<and>
     XSetWindowBorderWidth (window cl) (old_border cl) \<in> set (xlog w') \<and>
     (border cl = 2 \<and> old_border cl = 1 \<and> win_gravity cl = SouthEastGravity \<and>
      x cl = 10 \<and> y cl = 10 \<and> width cl = 50 \<and> height cl = 50 \<longrightarrow>
        filter is_reparent (xlog w') = filter is_reparent (xlog w) @
          [XReparentWindow (window cl) (root (screen cl)) 10 10] \<and>
        width (client_gravitate E (client_gravitate E cl (- border cl)) (old_border cl)) = 50 \<and>
        height (client_gravitate E (client_gravitate E cl (- border cl)) (old_border cl)) = 50 \<and>
        XSetWindowBorderWidth (window cl) 1 \<in> set (xlog w'))"
proof -
  from remove_client_xlog [OF assms, of E] obtain w' where
    run: "remove_client E c w = Some w'" and
    log: "xlog w' = xlog w @ [XGrabServer, Assign_ignore_xerror 1] @
                       remove_client_requests E c cl (current w) @
                       [XUngrabServer, XSync False, Assign_ignore_xerror 0]"
    by blast
  have rep: "filter is_reparent (xlog w') = filter is_reparent (xlog w) @
       [XReparentWindow (window cl) (root (screen cl))
          (x (client_gravitate E (client_gravitate E cl (- border cl)) (old_border cl)) - old_border cl)
          (y (client_gravitate E (client_gravitate E cl (- border cl)) (old_border cl)) - old_border cl)]"
    unfolding log by (simp add: remove_client_requests_reparent) (simp add: is_reparent_def)
  have bw: "XSetWindowBorderWidth (window cl) (old_border cl) \<in> set (xlog w')"
    unfolding log using remove_client_requests_border_width [of cl E c "current w"] by simp
  have part: "border cl = 2 \<and> old_border cl = 1 \<and> win_gravity cl = SouthEastGravity \<and>
      x cl = 10 \<and> y cl = 10 \<and> width cl = 50 \<and> height cl = 50 \<longrightarrow>
        filter is_reparent (xlog w') = filter is_reparent (xlog w) @
          [XReparentWindow (window cl) (root (screen cl)) 10 10] \<and>
        width (client_gravitate E (client_gravitate E cl (- border cl)) (old_border cl)) = 50 \<and>
        height (client_gravitate E (client_gravitate E cl (- border cl)) (old_border cl)) = 50 \<and>
        XSetWindowBorderWidth (window cl) 1 \<in> set (xlog w')"
  proof
    assume a: "border cl = 2 \<and> old_border cl = 1 \<and> win_gravity cl = SouthEastGravity \<and>
      x cl = 10 \<and> y cl = 10 \<and> width cl = 50 \<and> height cl = 50"
    then have b2: "border cl = 2" and ob: "old_border cl = 1"
      and g: "win_gravity cl = SouthEastGravity" and x10: "x cl = 10" and y10: "y cl = 10"
      and wd: "width cl = 50" and ht: "height cl = 50"
      by blast+
    note xy = south_east_undo [OF b2 ob g x10 y10, of E]
    have rep10: "filter is_reparent (xlog w') = filter is_reparent (xlog w) @
          [XReparentWindow (window cl) (root (screen cl)) 10 10]"
      using rep by (simp only: xy)
    have bw1: "XSetWindowBorderWidth (window cl) 1 \<in> set (xlog w')"
      using bw by (simp only: ob)
    show "filter is_reparent (xlog w') = filter is_reparent (xlog w) @
          [XReparentWindow (window cl) (root (screen cl)) 10 10] \<and>
        width (client_gravitate E (client_gravitate E cl (- border cl)) (old_border cl)) = 50 \<and>
        height (client_gravitate E (client_gravitate E cl (- border cl)) (old_border cl)) = 50 \<and>
        XSetWindowBorderWidth (window cl) 1 \<in> set (xlog w')"
      using rep10 bw1 by (simp add: client_gravitate_frame wd ht)
  qed
  from run rep bw part show ?thesis by blast
qed

text \<open>
  Removing client 1 of the example state.
\<close>

theorem remove_client_restores_geometry_witness:
  "heap example_world 1 = Some example_client \<and>
   (\<exists>w'. remove_client example_env 1 example_world = Some w' \<and>
      filter is_reparent (xlog w') = [XReparentWindow 11 7 10 10] \<and>
      XSetWindowBorderWidth 11 1 \<in> set (xlog w'))"
proof -
  have h: "heap example_world 1 = Some example_client" by (simp add: example_world_def)
  have x0: "filter is_reparent (xlog example_world) = []" by (simp add: example_world_def)
  from remove_client_restores_geometry [OF h, of example_env] obtain w' where
    "remove_client example_env 1 example_world = Some w'"
    "border example_client = 2 \<and> old_border example_client = 1 \<and>
     win_gravity example_client = SouthEastGravity \<and>
      x example_client = 10 \<and> y example_client = 10 \<and> width example_client = 50 \<and>
      height example_client = 50 \<longrightarrow>
        filter is_reparent (xlog w') = filter is_reparent (xlog example_world) @
          [XReparentWindow (window example_client) (root (screen example_client)) 10 10] \<and>
        XSetWindowBorderWidth (window example_client) 1 \<in> set (xlog w')"
    by blast
  then have "remove_client example_env 1 example_world = Some w' \<and>
      filter is_reparent (xlog w') = [XReparentWindow 11 7 10 10] \<and>
      XSetWindowBorderWidth 11 1 \<in> set (xlog w')"
    unfolding x0 by (simp add: example_client_def example_screen_def SouthEastGravity_def)
  with h show ?thesis by blast
qed

text \<open>
  C8, as the code has it: \<open>remove_client\<close> ends with \<open>XUngrabServer\<close>, then the
  synchronous flush \<open>XSync\<close>, and only then \<open>ignore_xerror = 0\<close>. Between the
  \<open>ignore_xerror = 1\<close> at its start and the flush there is no other flush and no write to
  the flag: the errors are drained while they are still ignored, and propagation is
  re-enabled last.
\<close>

theorem remove_client_flush_then_reenable:
  assumes "heap w c = Some cl"
  shows "\<exists>w' mid. remove_client E c w = Some w' \<and>
     xlog w' = xlog w @ [XGrabServer, Assign_ignore_xerror 1] @ mid @
                 [XUngrabServer, XSync False, Assign_ignore_xerror 0] \<and>
     (\<forall>b. XSync b \<notin> set mid) \<and> (\<forall>v. Assign_ignore_xerror v \<notin> set mid) \<and>
     ignore_xerror w' = 0"
  using remove_client_xlog [OF assms, of E] remove_client_requests_no_sync [of _ E c cl "current w"]
  by blast

text \<open>
  Removing client 1 of the example state.
\<close>

theorem remove_client_flush_then_reenable_witness:
  "heap example_world 1 = Some example_client \<and>
   (\<exists>w' mid. remove_client example_env 1 example_world = Some w' \<and>
     xlog w' = xlog example_world @ [XGrabServer, Assign_ignore_xerror 1] @ mid @
                 [XUngrabServer, XSync False, Assign_ignore_xerror 0] \<and>
     (\<forall>b. XSync b \<notin> set mid) \<and> (\<forall>v. Assign_ignore_xerror v \<notin> set mid) \<and>
     ignore_xerror w' = 0)"
proof -
  have h: "heap example_world 1 = Some example_client" by (simp add: example_world_def)
  from remove_client_flush_then_reenable [OF h, of example_env] h show ?thesis by blast
qed

text \<open>
  C8 as stated (propagation re-enabled first, flush second) fails: in the trace of
  removing client 1 of the example state no \<open>XSync\<close> comes after \<open>ignore_xerror = 0\<close>;
  the \<open>XSync\<close> comes before it.
\<close>

theorem remove_client_reenable_before_flush_counterexample:
  "map_option xlog (remove_client example_env 1 example_world) =
     Some [XGrabServer, Assign_ignore_xerror 1, XSetInputFocus 1,
           XChangeProperty 11 ''WM_STATE'' [0, 0], ewmh_withdraw_client 1,
           XReparentWindow 11 7 10 10, XSetWindowBorderWidth 11 1, XRemoveFromSaveSet 11,
           XDestroyWindow 12, ewmh_set_net_client_list example_screen,
           ewmh_set_net_client_list_stacking example_screen, ewmh_set_net_wm_state 1,
           XUngrabServer, XSync False, Assign_ignore_xerror 0] \<and>
   \<not> occurs_before (Assign_ignore_xerror 0) (XSync False)
     [XGrabServer, Assign_ignore_xerror 1, XSetInputFocus 1,
           XChangeProperty 11 ''WM_STATE'' [0, 0], ewmh_withdraw_client 1,
           XReparentWindow 11 7 10 10, XSetWindowBorderWidth 11 1, XRemoveFromSaveSet 11,
           XDestroyWindow 12, ewmh_set_net_client_list example_screen,
           ewmh_set_net_client_list_stacking example_screen, ewmh_set_net_wm_state 1,
           XUngrabServer, XSync False, Assign_ignore_xerror 0] \<and>
   occurs_before (XSync False) (Assign_ignore_xerror 0)
     [XGrabServer, Assign_ignore_xerror 1, XSetInputFocus 1,
           XChangeProperty 11 ''WM_STATE'' [0, 0], ewmh_withdraw_client 1,
           XReparentWindow 11 7 10 10, XSetWindowBorderWidth 11 1, XRemoveFromSaveSet 11,
           XDestroyWindow 12, ewmh_set_net_client_list example_screen,
           ewmh_set_net_client_list_stacking example_screen, ewmh_set_net_wm_state 1,
           XUngrabServer, XSync False, Assign_ignore_xerror 0]"
proof -
  have h: "heap example_world 1 = Some example_client" by (simp add: example_world_def)
  from remove_client_xlog [OF h, of example_env] obtain w' where
    run: "remove_client example_env 1 example_world = Some w'" and
    log: "xlog w' = xlog example_world @ [XGrabServer, Assign_ignore_xerror 1] @
                       remove_client_requests example_env 1 example_client (current example_world) @
                       [XUngrabServer, XSync False, Assign_ignore_xerror 0]"
    by blast
  have cur: "current example_world = Some 1" by (simp add: example_world_def)
  have geo: "client_gravitate example_env (client_gravitate example_env example_client (- 2)) 1
      = example_client\<lparr>x := 11, y := 11\<rparr>"
    by (simp add: client_gravitate_eq x_suppressed_def y_suppressed_def spec_gravity_offset_def
      gravity_defs example_client_def)
  have req: "remove_client_requests example_env 1 example_client (Some 1) =
     [XSetInputFocus 1,
           XChangeProperty 11 ''WM_STATE'' [0, 0], ewmh_withdraw_client 1,
           XReparentWindow 11 7 10 10, XSetWindowBorderWidth 11 1, XRemoveFromSaveSet 11,
           XDestroyWindow 12, ewmh_set_net_client_list example_screen,
           ewmh_set_net_client_list_stacking example_screen, ewmh_set_net_wm_state 1]"
    unfolding remove_client_requests_def
    by (simp add: example_client_def [THEN arg_cong, of border] example_client_def [THEN arg_cong, of old_border] geo Let_def)
      (simp add: example_client_def example_screen_def PointerRoot_def WithdrawnState_def None_xid_def)
  have "xlog w' = [XGrabServer, Assign_ignore_xerror 1, XSetInputFocus 1,
           XChangeProperty 11 ''WM_STATE'' [0, 0], ewmh_withdraw_client 1,
           XReparentWindow 11 7 10 10, XSetWindowBorderWidth 11 1, XRemoveFromSaveSet 11,
           XDestroyWindow 12, ewmh_set_net_client_list example_screen,
           ewmh_set_net_client_list_stacking example_screen, ewmh_set_net_wm_state 1,
           XUngrabServer, XSync False, Assign_ignore_xerror 0]"
    unfolding log cur req by (simp add: example_world_def)
  with run show ?thesis by simp
qed

end
